theory Spec2Isabelle
  imports Main "HOL-Library.Sublist"
begin

section \<open>The voice assistant script \<^verbatim>\<open>assistant.py\<close>\<close>

text \<open>
  The script is sequencing code over external collaborators (room transport, language
  model, speech synthesis). The embedding keeps what the script itself decides: which
  tasks an event handler spawns, what \<^verbatim>\<open>_answer\<close> appends to the chat context and in
  which order it calls its collaborators, how \<^verbatim>\<open>get_video_track\<close> scans a room, and what
  the \<^verbatim>\<open>__main__\<close> block checks before it builds the access token. The collaborators are
  parameters; every exception the script can raise or let through is a value.
\<close>

subsection \<open>Exceptions\<close>

datatype py_error =
    ValueError string
  | TypeError string
  | InvalidStateError
  | IndexError
  | CollaboratorError string

subsection \<open>Chat context\<close>

text \<open>
  A video frame is opaque to the script: it is stored and handed on, never inspected.
  \<^verbatim>\<open>rtc.VideoFrame\<close> defines neither \<^verbatim>\<open>__bool__\<close> nor \<^verbatim>\<open>__len__\<close>, so a frame is truthy.
\<close>

datatype video_frame = VideoFrame nat

datatype chat_image = ChatImage video_frame

datatype content_item = Text string | Image chat_image

text \<open>
  The content of a \<^verbatim>\<open>ChatMessage\<close> is a plain string (the system prompt) or a list of
  strings and images (what \<^verbatim>\<open>_answer\<close> builds).
\<close>

datatype message_content = Str string | Items "content_item list"

record chat_message =
  role :: string
  content :: message_content

text \<open>
  The system prompt, two adjacent literals that Python joins with nothing between them.
  Its accented letters are written as their UTF-8 bytes.
\<close>

definition system_prompt :: string where
  "system_prompt =
     ''Il tuo nome '' @ [CHR 0xC3, CHR 0xA8] @
     '' Alloy. Sei un bot divertente e spiritoso. La tua interfaccia con gli utenti sar'' @
     [CHR 0xC3, CHR 0xA0] @ '' vocale e visiva.'' @
     ''Rispondi con risposte brevi e concise. Evita di usare punteggiatura impronunciabile o emoji.''"

definition chat_context :: "chat_message list" where
  "chat_context = [\<lparr>role = ''system'', content = Str system_prompt\<rparr>]"

subsection \<open>Event handlers\<close>

text \<open>
  A handler's only effect is \<^verbatim>\<open>asyncio.create_task(_answer(...))\<close>; the model returns the
  list of tasks it creates, in order. \<open>Answer text use_image\<close> is the coroutine
  \<^verbatim>\<open>_answer(text, use_image)\<close>.
\<close>

datatype task = Answer string bool

text \<open>
  \<^verbatim>\<open>rtc.ChatMessage.message\<close> is a string or \<^verbatim>\<open>None\<close>. Python's truth test on it is
  false for \<^verbatim>\<open>None\<close> and for the empty string, true for every other string.
\<close>

record rtc_chat_message =
  message :: "string option"

definition truthy_str :: "string option \<Rightarrow> bool" where
  "truthy_str v = (case v of None \<Rightarrow> False | Some t \<Rightarrow> t \<noteq> [])"

definition on_message_received :: "rtc_chat_message \<Rightarrow> task list" where
  "on_message_received msg =
     (case message msg of
        None \<Rightarrow> []
      | Some t \<Rightarrow> if truthy_str (Some t) then [Answer t False] else [])"

text \<open>
  A finished function call carries its arguments as a dictionary; the one declared
  argument of the \<^verbatim>\<open>image\<close> capability, \<^verbatim>\<open>user_msg\<close>, is a string. \<^verbatim>\<open>dict.get\<close> gives
  \<^verbatim>\<open>None\<close> for a missing key.
\<close>

record function_call_info =
  arguments :: "string \<rightharpoonup> string"

record called_function =
  call_info :: function_call_info

text \<open>\<^verbatim>\<open>called_functions[0]\<close>: Python raises \<^verbatim>\<open>IndexError\<close> on an empty list.\<close>

definition index0 :: "'a list \<Rightarrow> py_error + 'a" where
  "index0 xs = (case xs of [] \<Rightarrow> Inl IndexError | x # _ \<Rightarrow> Inr x)"

definition on_function_calls_finished :: "called_function list \<Rightarrow> py_error + task list" where
  "on_function_calls_finished called_functions =
     (if length called_functions = 0 then Inr []
      else
        (case index0 called_functions of
           Inl e \<Rightarrow> Inl e
         | Inr cf \<Rightarrow>
             (let user_msg = arguments (call_info cf) ''user_msg'' in
              case user_msg of
                None \<Rightarrow> Inr []
              | Some t \<Rightarrow> if truthy_str (Some t) then Inr [Answer t True] else Inr [])))"

subsection \<open>The response coroutine \<^verbatim>\<open>_answer\<close>\<close>

text \<open>
  The language model and the speech synthesis are collaborators: \<open>gpt_chat\<close> stands for
  \<^verbatim>\<open>gpt.chat(chat_ctx=...)\<close>, which receives the chat context as it is at the call and
  gives a stream of response segments, and \<open>assistant_say\<close> for \<^verbatim>\<open>assistant.say\<close>. Either
  may raise. Their calls are recorded in order, each with what it was given.
\<close>

type_synonym stream = "string list"

datatype effect = LlmChat "chat_message list" | Say stream

text \<open>
  The room as the script reads it: its connection state and, per remote participant, the
  track publications. A publication's track is \<^verbatim>\<open>None\<close> until it is subscribed; a
  subscribed remote track is a video track or an audio track, with its sid.
\<close>

datatype remote_track = RemoteVideoTrack string | RemoteAudioTrack string

record track_publication =
  track :: "remote_track option"

record remote_participant =
  track_publications :: "(string \<times> track_publication) list"

datatype connection_state = CONN_DISCONNECTED | CONN_CONNECTED | CONN_RECONNECTING

text \<open>Python dictionaries iterate in insertion order: association lists.\<close>

record rtc_room =
  connection_state :: connection_state
  remote_participants :: "(string \<times> remote_participant) list"

text \<open>
  Where \<^verbatim>\<open>entrypoint\<close> stands between two events: not yet at the media loop (asleep
  for a second or speaking the greeting, while the handlers already serve events),
  suspended on the future of \<^verbatim>\<open>get_video_track\<close>, suspended on the next frame of a
  track's stream, past the \<^verbatim>\<open>while\<close>, or ended by an exception.
\<close>

datatype loop_task =
    Greeting
  | AwaitingTrack
  | AwaitingFrame remote_track
  | Finished
  | Failed py_error

text \<open>
  The variables of \<^verbatim>\<open>entrypoint\<close> that its closures share: the messages of
  \<^verbatim>\<open>chat_context\<close>, \<^verbatim>\<open>latest_image\<close> and \<^verbatim>\<open>ctx.room\<close>; with them the record of collaborator
  calls and the media loop's position.
\<close>

record entrypoint_state =
  messages :: "chat_message list"
  latest_image :: "video_frame option"
  ctx_room :: rtc_room
  effects :: "effect list"
  media :: loop_task

text \<open>
  The content of the user turn: the text, and the latest frame after it when
  \<^verbatim>\<open>use_image and latest_image\<close> is true (a frame is truthy, \<^verbatim>\<open>None\<close> is not).
  \<^verbatim>\<open>_answer\<close> builds it, appends the user message, then calls the model and the
  synthesis. An exception of a collaborator leaves \<^verbatim>\<open>_answer\<close> at that point, with the
  state as it is then.
\<close>

definition build_content :: "string \<Rightarrow> bool \<Rightarrow> video_frame option \<Rightarrow> content_item list" where
  "build_content text use_image latest =
     (let content = [Text text]
      in case latest of
           None \<Rightarrow> content
         | Some f \<Rightarrow> if use_image then content @ [Image (ChatImage f)] else content)"

definition answer ::
  "(chat_message list \<Rightarrow> py_error + stream) \<Rightarrow> (stream \<Rightarrow> py_error + unit) \<Rightarrow>
   string \<Rightarrow> bool \<Rightarrow> entrypoint_state \<Rightarrow> (py_error + unit) \<times> entrypoint_state" where
  "answer gpt_chat assistant_say text use_image s =
     (let content = build_content text use_image (latest_image s);
          s1 = s\<lparr>messages := messages s @ [\<lparr>role = ''user'', content = Items content\<rparr>]\<rparr>;
          s2 = s1\<lparr>effects := effects s1 @ [LlmChat (messages s1)]\<rparr>
      in case gpt_chat (messages s1) of
           Inl e \<Rightarrow> (Inl e, s2)
         | Inr stream \<Rightarrow>
             (let s3 = s2\<lparr>effects := effects s2 @ [Say stream]\<rparr>
              in case assistant_say stream of
                   Inl e \<Rightarrow> (Inl e, s3)
                 | Inr _ \<Rightarrow> (Inr (), s3)))"

subsection \<open>Finding the video track\<close>

text \<open>
  \<^verbatim>\<open>asyncio.Future\<close>: \<^verbatim>\<open>set_result\<close> on a future that already has its result raises
  \<^verbatim>\<open>InvalidStateError\<close>.
\<close>

datatype 'a future = Pending | Done 'a

definition set_result :: "'a future \<Rightarrow> 'a \<Rightarrow> py_error + 'a future" where
  "set_result fut v = (case fut of Pending \<Rightarrow> Inr (Done v) | Done _ \<Rightarrow> Inl InvalidStateError)"

text \<open>
  The inner \<^verbatim>\<open>for\<close> over one participant's publications: at the first publication whose
  track is a \<^verbatim>\<open>RemoteVideoTrack\<close> it sets the future's result and breaks.
\<close>

fun scan_publications ::
  "remote_track future \<Rightarrow> track_publication list \<Rightarrow> py_error + remote_track future" where
  "scan_publications fut [] = Inr fut"
| "scan_publications fut (p # ps) =
     (case track p of
        Some (RemoteVideoTrack sid) \<Rightarrow> set_result fut (RemoteVideoTrack sid)
      | _ \<Rightarrow> scan_publications fut ps)"

text \<open>
  The outer \<^verbatim>\<open>for\<close> over the participants. The \<^verbatim>\<open>break\<close> above leaves the inner loop
  only, so the outer loop goes on to the next participant with the same future.
\<close>

fun scan_participants ::
  "remote_track future \<Rightarrow> remote_participant list \<Rightarrow> py_error + remote_track future" where
  "scan_participants fut [] = Inr fut"
| "scan_participants fut (p # ps) =
     (case scan_publications fut (map snd (track_publications p)) of
        Inl e \<Rightarrow> Inl e
      | Inr fut' \<Rightarrow> scan_participants fut' ps)"

text \<open>
  \<^verbatim>\<open>return await video_track\<close>: the future is local to the call and handed to nobody, so
  nothing can set its result after the scan. Awaiting it while it is pending suspends
  the caller for good.
\<close>

datatype 'a outcome = Returns 'a | Raises py_error | Suspended

definition get_video_track :: "rtc_room \<Rightarrow> remote_track outcome" where
  "get_video_track room =
     (case scan_participants Pending (map snd (remote_participants room)) of
        Inl e \<Rightarrow> Raises e
      | Inr Pending \<Rightarrow> Suspended
      | Inr (Done t) \<Rightarrow> Returns t)"

text \<open>
  Two notions to state what the scan yields: the first video track among one
  participant's publications, and, over the participants in order, the list of these
  first video tracks.
\<close>

fun first_video :: "track_publication list \<Rightarrow> remote_track option" where
  "first_video [] = None"
| "first_video (p # ps) =
     (case track p of
        Some (RemoteVideoTrack sid) \<Rightarrow> Some (RemoteVideoTrack sid)
      | _ \<Rightarrow> first_video ps)"

definition video_tracks :: "remote_participant list \<Rightarrow> remote_track list" where
  "video_tracks ps = List.map_filter (\<lambda>p. first_video (map snd (track_publications p))) ps"

subsection \<open>The media loop of \<^verbatim>\<open>entrypoint\<close>\<close>

text \<open>
  The head of the \<^verbatim>\<open>while\<close>: the test of the connection state, then
  \<^verbatim>\<open>await get_video_track(ctx.room)\<close> on the room as it is now.
\<close>

definition media_loop_head :: "entrypoint_state \<Rightarrow> entrypoint_state" where
  "media_loop_head s =
     (if connection_state (ctx_room s) = CONN_CONNECTED then
        (case get_video_track (ctx_room s) of
           Returns t \<Rightarrow> s\<lparr>media := AwaitingFrame t\<rparr>
         | Raises e \<Rightarrow> s\<lparr>media := Failed e\<rparr>
         | Suspended \<Rightarrow> s\<lparr>media := AwaitingTrack\<rparr>)
      else s\<lparr>media := Finished\<rparr>)"

text \<open>
  What happens around the loop: the greeting is over and \<^verbatim>\<open>entrypoint\<close> reaches the
  \<^verbatim>\<open>while\<close>, the room changes (participants join, publish, leave, the connection
  drops), the stream of the current track yields a frame, or that stream ends.
  A frame is stored into \<^verbatim>\<open>latest_image\<close>; the end of the stream leads back to the head.
  A change of the room wakes nothing: the loop has registered no callback on the room.
\<close>

datatype event = GreetingDone | RoomChanged rtc_room | FrameEvent video_frame | StreamEnded

fun media_step :: "entrypoint_state \<Rightarrow> event \<Rightarrow> entrypoint_state" where
  "media_step s GreetingDone =
     (case media s of Greeting \<Rightarrow> media_loop_head s | _ \<Rightarrow> s)"
| "media_step s (RoomChanged r) = s\<lparr>ctx_room := r\<rparr>"
| "media_step s (FrameEvent f) =
     (case media s of AwaitingFrame t \<Rightarrow> s\<lparr>latest_image := Some f\<rparr> | _ \<Rightarrow> s)"
| "media_step s StreamEnded =
     (case media s of AwaitingFrame t \<Rightarrow> media_loop_head s | _ \<Rightarrow> s)"

definition media_run :: "entrypoint_state \<Rightarrow> event list \<Rightarrow> entrypoint_state" where
  "media_run s evs = foldl media_step s evs"

text \<open>
  The state of \<^verbatim>\<open>entrypoint\<close> once the handlers are registered, in a room \<open>r\<close>.
\<close>

definition entrypoint_init :: "rtc_room \<Rightarrow> entrypoint_state" where
  "entrypoint_init r =
     \<lparr>messages = chat_context, latest_image = None, ctx_room = r, effects = [],
      media = Greeting\<rparr>"

text \<open>
  Everything that changes the shared state once \<^verbatim>\<open>entrypoint\<close> is set up: a spawned
  \<^verbatim>\<open>_answer\<close> task, or an event of the media loop. \<^verbatim>\<open>_answer\<close> reads \<^verbatim>\<open>latest_image\<close>
  and writes the messages before its first \<^verbatim>\<open>await\<close>, so on the one event loop these
  happen in one piece and running a task as one step loses no interleaving of the writes.
\<close>

datatype operation = RunTask task | MediaEvent event

fun exec_op ::
  "(chat_message list \<Rightarrow> py_error + stream) \<Rightarrow> (stream \<Rightarrow> py_error + unit) \<Rightarrow>
   entrypoint_state \<Rightarrow> operation \<Rightarrow> entrypoint_state" where
  "exec_op gpt_chat assistant_say s (RunTask (Answer text use_image)) =
     snd (answer gpt_chat assistant_say text use_image s)"
| "exec_op gpt_chat assistant_say s (MediaEvent ev) = media_step s ev"

definition exec_ops ::
  "(chat_message list \<Rightarrow> py_error + stream) \<Rightarrow> (stream \<Rightarrow> py_error + unit) \<Rightarrow>
   entrypoint_state \<Rightarrow> operation list \<Rightarrow> entrypoint_state" where
  "exec_ops gpt_chat assistant_say s ops = foldl (exec_op gpt_chat assistant_say) s ops"

text \<open>The role \<^verbatim>\<open>system\<close> occurs once in the messages, at their head.\<close>

definition system_first_once :: "chat_message list \<Rightarrow> bool" where
  "system_first_once ms =
     (case ms of
        [] \<Rightarrow> False
      | m # rest \<Rightarrow> role m = ''system'' \<and> filter (\<lambda>m'. role m' = ''system'') rest = [])"

subsection \<open>Startup: the \<^verbatim>\<open>__main__\<close> block\<close>

record video_grants =
  room_join :: bool
  room :: string

text \<open>
  The token under construction. A fresh \<^verbatim>\<open>AccessToken\<close> has no identity, name or grants
  yet; the three \<^verbatim>\<open>with_\<close> methods set them and return the token.
\<close>

record access_token =
  api_key :: string
  api_secret :: string
  identity :: string
  name :: string
  grants :: "video_grants option"

definition AccessToken :: "string \<Rightarrow> string \<Rightarrow> access_token" where
  "AccessToken k sec =
     \<lparr>api_key = k, api_secret = sec, identity = [], name = [], grants = None\<rparr>"

definition with_identity :: "access_token \<Rightarrow> string \<Rightarrow> access_token" where
  "with_identity tok i = tok\<lparr>identity := i\<rparr>"

definition with_name :: "access_token \<Rightarrow> string \<Rightarrow> access_token" where
  "with_name tok n = tok\<lparr>name := n\<rparr>"

definition with_grants :: "access_token \<Rightarrow> video_grants \<Rightarrow> access_token" where
  "with_grants tok g = tok\<lparr>grants := Some g\<rparr>"

text \<open>
  The token the block builds before it signs it, and what the block does, in order: it
  builds and signs the token (\<open>to_jwt\<close> is the auth library's signing, a parameter),
  builds the worker's options from \<^verbatim>\<open>entrypoint\<close> and the signed token, and hands them to
  \<^verbatim>\<open>cli.run_app\<close>, which is where the worker connects. The last two are calls into the
  agent library and parameters too: \<open>worker_options\<close> stands for
  \<^verbatim>\<open>WorkerOptions(entrypoint_fnc=entrypoint, token=token)\<close> and \<open>run_app\<close> for
  \<^verbatim>\<open>cli.run_app\<close>. Either may raise (a \<^verbatim>\<open>WorkerOptions\<close> that takes no keyword \<^verbatim>\<open>token\<close>
  raises \<^verbatim>\<open>TypeError\<close>), and the block ends there: after a refusal of the options
  \<^verbatim>\<open>cli.run_app\<close> is not reached. \<^verbatim>\<open>os.getenv\<close> is the lookup in the environment; the
  \<^verbatim>\<open>ValueError\<close> of the credentials check ends the process before any of this.
\<close>

datatype 'w startup_effect = TokenSigned access_token | RunApp 'w

definition missing_credentials :: py_error where
  "missing_credentials =
     ValueError (''LIVEKIT_API_KEY e LIVEKIT_API_SECRET devono essere impostati nelle variabili d''
                 @ [CHR 0x27] @ ''ambiente.'')"

definition startup_token :: "string \<Rightarrow> string \<Rightarrow> access_token" where
  "startup_token k sec =
     with_grants
       (with_name (with_identity (AccessToken k sec) ''python-bot'') ''Python Bot'')
       \<lparr>room_join = True, room = ''my-room''\<rparr>"

definition main ::
  "(access_token \<Rightarrow> string) \<Rightarrow> (string \<Rightarrow> py_error + 'w) \<Rightarrow> ('w \<Rightarrow> py_error option) \<Rightarrow>
   (string \<rightharpoonup> string) \<Rightarrow> 'w startup_effect list \<times> py_error option" where
  "main to_jwt worker_options run_app env =
     (let key = env ''LIVEKIT_API_KEY'';
          secret = env ''LIVEKIT_API_SECRET''
      in if \<not> truthy_str key \<or> \<not> truthy_str secret then ([], Some missing_credentials)
         else
           (case (key, secret) of
              (Some k, Some sec) \<Rightarrow>
                (let tok = startup_token k sec;
                     token = to_jwt tok
                 in case worker_options token of
                      Inl e \<Rightarrow> ([TokenSigned tok], Some e)
                    | Inr opts \<Rightarrow> ([TokenSigned tok, RunApp opts], run_app opts))
            | _ \<Rightarrow> ([], Some missing_credentials)))"

section \<open>Event dispatch\<close>

text \<open>
  C1 (as the code has it). A chat message whose text is \<open>T\<close> spawns exactly the one task
  \<^verbatim>\<open>_answer(T, use_image=False)\<close> when \<open>T\<close> is non-empty, and no task when \<open>T\<close> is empty or
  the message carries no text. The test is Python's truth value of the string: nothing
  strips it, so a text of blanks is non-empty and is answered like any other.
\<close>

theorem on_message_received_nonempty:
  "on_message_received \<lparr>message = Some T\<rparr> = (if T = [] then [] else [Answer T False])
   \<and> ((on_message_received \<lparr>message = Some T\<rparr> = [Answer T False]) = (T \<noteq> []))
   \<and> on_message_received \<lparr>message = None\<rparr> = []"
  by (simp add: on_message_received_def truthy_str_def)

text \<open>
  C1 as stated also promises that a whitespace-only text spawns nothing. The text of one
  blank does spawn a task.
\<close>

theorem on_message_received_blank_counterexample:
  "on_message_received \<lparr>message = Some '' ''\<rparr> = [Answer '' '' False]
   \<and> on_message_received \<lparr>message = Some '' ''\<rparr> \<noteq> []"
  by (simp add: on_message_received_def truthy_str_def)

text \<open>
  C2. A batch of finished function calls: an empty batch spawns nothing; a batch whose
  first call has a non-empty \<^verbatim>\<open>user_msg\<close> spawns exactly
  \<^verbatim>\<open>_answer(user_msg, use_image=True)\<close> for that first call, whatever the calls after it
  are; a first call whose \<^verbatim>\<open>user_msg\<close> is missing or empty spawns nothing. In each case
  the handler returns normally (\<open>Inr\<close>): it raises nothing.
\<close>

theorem on_function_calls_finished_first_call:
  "on_function_calls_finished [] = Inr []
   \<and> (arguments (call_info cf) ''user_msg'' = Some m \<and> m \<noteq> [] \<longrightarrow>
        on_function_calls_finished (cf # rest) = Inr [Answer m True])
   \<and> (arguments (call_info cf) ''user_msg'' = None
        \<or> arguments (call_info cf) ''user_msg'' = Some [] \<longrightarrow>
        on_function_calls_finished (cf # rest) = Inr [])"
  by (auto simp: on_function_calls_finished_def index0_def truthy_str_def)

text \<open>
  A batch of two calls, each with a message: the first call's message is the one
  answered. The same batch behind a first call without arguments: nothing is spawned.
\<close>

theorem on_function_calls_finished_first_call_witness:
  "on_function_calls_finished
     [\<lparr>call_info = \<lparr>arguments = [''user_msg'' \<mapsto> ''describe what you see'']\<rparr>\<rparr>,
      \<lparr>call_info = \<lparr>arguments = [''user_msg'' \<mapsto> ''and this one'']\<rparr>\<rparr>]
     = Inr [Answer ''describe what you see'' True]
   \<and> on_function_calls_finished
     [\<lparr>call_info = \<lparr>arguments = Map.empty\<rparr>\<rparr>,
      \<lparr>call_info = \<lparr>arguments = [''user_msg'' \<mapsto> ''and this one'']\<rparr>\<rparr>]
     = Inr []"
  using on_function_calls_finished_first_call
          [of "\<lparr>call_info = \<lparr>arguments = [''user_msg'' \<mapsto> ''describe what you see'']\<rparr>\<rparr>"
              "''describe what you see''"
              "[\<lparr>call_info = \<lparr>arguments = [''user_msg'' \<mapsto> ''and this one'']\<rparr>\<rparr>]"]
        on_function_calls_finished_first_call
          [of "\<lparr>call_info = \<lparr>arguments = Map.empty\<rparr>\<rparr>" "[]"
              "[\<lparr>call_info = \<lparr>arguments = [''user_msg'' \<mapsto> ''and this one'']\<rparr>\<rparr>]"]
  by simp

section \<open>The response coroutine\<close>

text \<open>
  What one run of \<^verbatim>\<open>_answer\<close> leaves in the messages, and what it returns: an error only
  when a collaborator raised one.
\<close>

lemma answer_messages:
  "messages (snd (answer gpt_chat assistant_say text use_image s)) =
     messages s @
     [\<lparr>role = ''user'', content = Items (build_content text use_image (latest_image s))\<rparr>]"
  by (simp add: answer_def Let_def split: sum.splits)

lemma answer_result:
  "fst (answer gpt_chat assistant_say text use_image s) =
     (case gpt_chat (messages s @
             [\<lparr>role = ''user'', content = Items (build_content text use_image (latest_image s))\<rparr>]) of
        Inl e \<Rightarrow> Inl e
      | Inr st \<Rightarrow> (case assistant_say st of Inl e \<Rightarrow> Inl e | Inr u \<Rightarrow> Inr ()))"
  by (simp add: answer_def Let_def split: sum.splits)

lemma build_content_no_frame: "build_content text use_image None = [Text text]"
  by (simp add: build_content_def)

text \<open>
  C3. Every run of \<^verbatim>\<open>_answer(text, use_image)\<close> appends exactly one message, of role
  \<^verbatim>\<open>user\<close>, whose content is the text followed by one image item exactly when
  \<open>use_image\<close> holds and a latest frame is present. The model is called after that: the
  first collaborator call of the run is the chat call, and the context it receives
  already ends with the new message.
\<close>

theorem answer_appends_user_turn:
  "messages (snd (answer gpt_chat assistant_say text use_image s)) =
     messages s @
     [\<lparr>role = ''user'',
       content = Items (Text text #
                   (case latest_image s of
                      None \<Rightarrow> []
                    | Some f \<Rightarrow> if use_image then [Image (ChatImage f)] else []))\<rparr>]
   \<and> (\<exists>later. effects (snd (answer gpt_chat assistant_say text use_image s)) =
         effects s @
         LlmChat (messages (snd (answer gpt_chat assistant_say text use_image s))) # later)"
  by (auto simp: answer_def build_content_def Let_def split: sum.splits option.splits)

text \<open>
  C4. With no latest frame, \<^verbatim>\<open>_answer(text, use_image=True)\<close> does exactly what
  \<^verbatim>\<open>_answer(text, use_image=False)\<close> does: the appended user message holds the text alone,
  and when the model and the synthesis succeed the run ends without an error.
\<close>

theorem answer_without_frame:
  "latest_image s = None \<Longrightarrow>
     answer gpt_chat assistant_say text True s = answer gpt_chat assistant_say text False s
     \<and> messages (snd (answer gpt_chat assistant_say text True s)) =
         messages s @ [\<lparr>role = ''user'', content = Items [Text text]\<rparr>]
     \<and> (\<forall>st. gpt_chat (messages s @ [\<lparr>role = ''user'', content = Items [Text text]\<rparr>]) = Inr st
              \<and> assistant_say st = Inr ()
            \<longrightarrow> fst (answer gpt_chat assistant_say text True s) = Inr ())"
proof -
  assume absent: "latest_image s = None"
  have same: "answer gpt_chat assistant_say text True s = answer gpt_chat assistant_say text False s"
    using absent by (simp add: answer_def build_content_def)
  have appended: "messages (snd (answer gpt_chat assistant_say text True s)) =
      messages s @ [\<lparr>role = ''user'', content = Items [Text text]\<rparr>]"
    using absent by (simp add: answer_messages build_content_no_frame)
  have quiet: "\<forall>st. gpt_chat (messages s @ [\<lparr>role = ''user'', content = Items [Text text]\<rparr>]) = Inr st
              \<and> assistant_say st = Inr ()
            \<longrightarrow> fst (answer gpt_chat assistant_say text True s) = Inr ()"
    using absent by (simp add: answer_result build_content_no_frame)
  from same appended quiet show ?thesis by blast
qed

text \<open>
  In the state \<^verbatim>\<open>entrypoint\<close> starts from no frame has been seen; a request for an answer
  with the image appends the text alone and succeeds.
\<close>

theorem answer_without_frame_witness:
  "latest_image (entrypoint_init \<lparr>connection_state = CONN_CONNECTED, remote_participants = []\<rparr>) = None
   \<and> messages (snd (answer (\<lambda>ctx. Inr [''Ciao'']) (\<lambda>st. Inr ()) ''describe what you see'' True
        (entrypoint_init \<lparr>connection_state = CONN_CONNECTED, remote_participants = []\<rparr>))) =
      chat_context @ [\<lparr>role = ''user'', content = Items [Text ''describe what you see'']\<rparr>]
   \<and> fst (answer (\<lambda>ctx. Inr [''Ciao'']) (\<lambda>st. Inr ()) ''describe what you see'' True
        (entrypoint_init \<lparr>connection_state = CONN_CONNECTED, remote_participants = []\<rparr>)) = Inr ()"
proof -
  let ?s = "entrypoint_init \<lparr>connection_state = CONN_CONNECTED, remote_participants = []\<rparr>"
  have absent: "latest_image ?s = None"
    by (simp add: entrypoint_init_def)
  have start: "messages ?s = chat_context"
    by (simp add: entrypoint_init_def)
  note w = answer_without_frame
             [OF absent, of "\<lambda>ctx. Inr [''Ciao'']" "\<lambda>st. Inr ()" "''describe what you see''"]
  from w have appended:
    "messages (snd (answer (\<lambda>ctx. Inr [''Ciao'']) (\<lambda>st. Inr ()) ''describe what you see'' True ?s)) =
       chat_context @ [\<lparr>role = ''user'', content = Items [Text ''describe what you see'']\<rparr>]"
    unfolding start by blast
  from w have quiet:
    "fst (answer (\<lambda>ctx. Inr [''Ciao'']) (\<lambda>st. Inr ()) ''describe what you see'' True ?s) = Inr ()"
    by blast
  from absent appended quiet show ?thesis by blast
qed

text \<open>
  C10. A run of \<^verbatim>\<open>_answer\<close> in which the chat call raises, or the chat call succeeds and
  the synthesis raises, ends with that error, and the user message appended before the
  call is still in the messages: the state is not the one the run started from.
\<close>

theorem answer_failure_keeps_user_turn:
  "gpt_chat (messages s @
       [\<lparr>role = ''user'', content = Items (build_content text use_image (latest_image s))\<rparr>]) = Inl e
   \<or> (\<exists>st. gpt_chat (messages s @
         [\<lparr>role = ''user'', content = Items (build_content text use_image (latest_image s))\<rparr>]) = Inr st
        \<and> assistant_say st = Inl e) \<Longrightarrow>
   fst (answer gpt_chat assistant_say text use_image s) = Inl e
   \<and> messages (snd (answer gpt_chat assistant_say text use_image s)) =
       messages s @
       [\<lparr>role = ''user'', content = Items (build_content text use_image (latest_image s))\<rparr>]
   \<and> snd (answer gpt_chat assistant_say text use_image s) \<noteq> s"
proof -
  let ?m = "\<lparr>role = ''user'', content = Items (build_content text use_image (latest_image s))\<rparr>"
  let ?s' = "snd (answer gpt_chat assistant_say text use_image s)"
  assume fails: "gpt_chat (messages s @ [?m]) = Inl e
    \<or> (\<exists>st. gpt_chat (messages s @ [?m]) = Inr st \<and> assistant_say st = Inl e)"
  then have err: "fst (answer gpt_chat assistant_say text use_image s) = Inl e"
    by (auto simp: answer_result)
  have kept: "messages ?s' = messages s @ [?m]"
    by (rule answer_messages)
  have "messages ?s' \<noteq> messages s"
    unfolding kept by simp
  then have changed: "?s' \<noteq> s"
    by auto
  from err kept changed show ?thesis by blast
qed

text \<open>
  A chat call that fails on its quota and a synthesis that fails: either way the question
  stays in the chat context behind the system prompt.
\<close>

theorem answer_failure_keeps_user_turn_witness:
  "fst (answer (\<lambda>ctx. Inl (CollaboratorError ''quota'')) (\<lambda>st. Inr ()) ''What is the weather?'' False
        (entrypoint_init \<lparr>connection_state = CONN_CONNECTED, remote_participants = []\<rparr>))
     = Inl (CollaboratorError ''quota'')
   \<and> messages (snd (answer (\<lambda>ctx. Inl (CollaboratorError ''quota'')) (\<lambda>st. Inr ()) ''What is the weather?'' False
        (entrypoint_init \<lparr>connection_state = CONN_CONNECTED, remote_participants = []\<rparr>)))
     = chat_context @ [\<lparr>role = ''user'', content = Items [Text ''What is the weather?'']\<rparr>]
   \<and> fst (answer (\<lambda>ctx. Inr [''Sole'']) (\<lambda>st. Inl (CollaboratorError ''tts'')) ''What is the weather?'' False
        (entrypoint_init \<lparr>connection_state = CONN_CONNECTED, remote_participants = []\<rparr>))
     = Inl (CollaboratorError ''tts'')
   \<and> messages (snd (answer (\<lambda>ctx. Inr [''Sole'']) (\<lambda>st. Inl (CollaboratorError ''tts'')) ''What is the weather?'' False
        (entrypoint_init \<lparr>connection_state = CONN_CONNECTED, remote_participants = []\<rparr>)))
     = chat_context @ [\<lparr>role = ''user'', content = Items [Text ''What is the weather?'']\<rparr>]"
  using answer_failure_keeps_user_turn
          [of "\<lambda>ctx. Inl (CollaboratorError ''quota'')"
              "entrypoint_init \<lparr>connection_state = CONN_CONNECTED, remote_participants = []\<rparr>"
              "''What is the weather?''" False "CollaboratorError ''quota''" "\<lambda>st. Inr ()"]
        answer_failure_keeps_user_turn
          [of "\<lambda>ctx. Inr [''Sole'']"
              "entrypoint_init \<lparr>connection_state = CONN_CONNECTED, remote_participants = []\<rparr>"
              "''What is the weather?''" False "CollaboratorError ''tts''"
              "\<lambda>st. Inl (CollaboratorError ''tts'')"]
  by (simp add: entrypoint_init_def build_content_no_frame)

section \<open>Conversation state\<close>

text \<open>
  Appending messages of other roles keeps the system message first and alone; the media
  loop never touches the messages; so every operation extends the messages by messages
  that are not system messages.
\<close>

lemma system_first_once_append:
  "system_first_once ms \<Longrightarrow> filter (\<lambda>m'. role m' = ''system'') new = [] \<Longrightarrow>
   system_first_once (ms @ new)"
  by (cases ms) (simp_all add: system_first_once_def)

lemma media_loop_head_messages: "messages (media_loop_head s) = messages s"
  by (simp add: media_loop_head_def split: outcome.splits)

lemma media_step_messages: "messages (media_step s ev) = messages s"
  by (cases ev) (simp_all add: media_loop_head_messages split: loop_task.splits)

lemma exec_op_messages:
  "\<exists>new. messages (exec_op gpt_chat assistant_say s op) = messages s @ new
     \<and> filter (\<lambda>m'. role m' = ''system'') new = []"
proof (cases op)
  case (RunTask t)
  then show ?thesis
    by (cases t) (simp add: answer_messages)
next
  case (MediaEvent ev)
  then show ?thesis
    by (simp add: media_step_messages)
qed

lemma exec_ops_messages:
  "\<exists>new. messages (exec_ops gpt_chat assistant_say s ops) = messages s @ new
     \<and> filter (\<lambda>m'. role m' = ''system'') new = []"
  unfolding exec_ops_def
proof (induction ops arbitrary: s)
  case Nil
  then show ?case by simp
next
  case (Cons op ops)
  obtain new1 where one: "messages (exec_op gpt_chat assistant_say s op) = messages s @ new1"
      and sys1: "filter (\<lambda>m'. role m' = ''system'') new1 = []"
    using exec_op_messages by blast
  obtain new2 where
      two: "messages (foldl (exec_op gpt_chat assistant_say) (exec_op gpt_chat assistant_say s op) ops) =
            messages (exec_op gpt_chat assistant_say s op) @ new2"
      and sys2: "filter (\<lambda>m'. role m' = ''system'') new2 = []"
    using Cons.IH by blast
  have "messages (foldl (exec_op gpt_chat assistant_say) s (op # ops)) = messages s @ (new1 @ new2)"
    using one two by simp
  moreover have "filter (\<lambda>m'. role m' = ''system'') (new1 @ new2) = []"
    using sys1 sys2 by simp
  ultimately show ?case by blast
qed

lemma system_first_once_chat_context: "system_first_once chat_context"
  by (simp add: system_first_once_def chat_context_def)

text \<open>
  C9. The initial chat context has the system message once, as its first message. After
  any sequence of \<^verbatim>\<open>_answer\<close> runs and media events from the initial state it still has.
  From any state, the messages after such a sequence extend the messages before it:
  nothing is reordered or dropped. And one run of \<^verbatim>\<open>_answer\<close> from any state where the
  invariant holds keeps it and extends the messages.
\<close>

theorem conversation_state_invariant:
  "system_first_once chat_context
   \<and> system_first_once (messages (exec_ops gpt_chat assistant_say (entrypoint_init r) ops))
   \<and> prefix (messages s) (messages (exec_ops gpt_chat assistant_say s ops))
   \<and> (system_first_once (messages s) \<longrightarrow>
        system_first_once (messages (snd (answer gpt_chat assistant_say text use_image s)))
        \<and> prefix (messages s) (messages (snd (answer gpt_chat assistant_say text use_image s))))"
proof -
  obtain new where grown: "messages (exec_ops gpt_chat assistant_say (entrypoint_init r) ops) =
        messages (entrypoint_init r) @ new"
      and nosys: "filter (\<lambda>m'. role m' = ''system'') new = []"
    using exec_ops_messages by blast
  have start: "messages (entrypoint_init r) = chat_context"
    by (simp add: entrypoint_init_def)
  have reach: "system_first_once (messages (exec_ops gpt_chat assistant_say (entrypoint_init r) ops))"
    unfolding grown start
    using system_first_once_chat_context nosys by (rule system_first_once_append)
  have pre: "prefix (messages s) (messages (exec_ops gpt_chat assistant_say s ops))"
    using exec_ops_messages [of gpt_chat assistant_say s ops] by (auto simp: prefix_def)
  have step: "system_first_once (messages s) \<longrightarrow>
        system_first_once (messages (snd (answer gpt_chat assistant_say text use_image s)))
        \<and> prefix (messages s) (messages (snd (answer gpt_chat assistant_say text use_image s)))"
    by (simp add: answer_messages system_first_once_append)
  from system_first_once_chat_context reach pre step show ?thesis by blast
qed

text \<open>
  The initial state satisfies the invariant; after one answered chat message the
  messages are the system prompt and the user turn, and the invariant holds.
\<close>

theorem conversation_state_invariant_witness:
  "system_first_once (messages (entrypoint_init \<lparr>connection_state = CONN_CONNECTED, remote_participants = []\<rparr>))
   \<and> system_first_once
       (messages (snd (answer (\<lambda>ctx. Inr [''Ciao'']) (\<lambda>st. Inr ()) ''What is the weather?'' False
          (entrypoint_init \<lparr>connection_state = CONN_CONNECTED, remote_participants = []\<rparr>))))
   \<and> messages (snd (answer (\<lambda>ctx. Inr [''Ciao'']) (\<lambda>st. Inr ()) ''What is the weather?'' False
          (entrypoint_init \<lparr>connection_state = CONN_CONNECTED, remote_participants = []\<rparr>))) =
       [\<lparr>role = ''system'', content = Str system_prompt\<rparr>,
        \<lparr>role = ''user'', content = Items [Text ''What is the weather?'']\<rparr>]"
proof -
  let ?s = "entrypoint_init \<lparr>connection_state = CONN_CONNECTED, remote_participants = []\<rparr>"
  have start: "messages ?s = chat_context"
    by (simp add: entrypoint_init_def)
  note w = conversation_state_invariant
             [of "\<lambda>ctx. Inr [''Ciao'']" "\<lambda>st. Inr ()"
                 "\<lparr>connection_state = CONN_CONNECTED, remote_participants = []\<rparr>"
                 "[]" ?s "''What is the weather?''" False]
  from w have holds: "system_first_once (messages ?s)"
    unfolding start by blast
  with w have kept: "system_first_once
       (messages (snd (answer (\<lambda>ctx. Inr [''Ciao'']) (\<lambda>st. Inr ()) ''What is the weather?'' False ?s)))"
    by blast
  have shape: "messages (snd (answer (\<lambda>ctx. Inr [''Ciao'']) (\<lambda>st. Inr ()) ''What is the weather?'' False ?s)) =
       [\<lparr>role = ''system'', content = Str system_prompt\<rparr>,
        \<lparr>role = ''user'', content = Items [Text ''What is the weather?'']\<rparr>]"
    by (simp add: answer_messages entrypoint_init_def build_content_no_frame chat_context_def)
  from holds kept shape show ?thesis by blast
qed

section \<open>Finding the video track and the media loop\<close>

text \<open>
  The scan in closed form. Within one participant the first video track is taken. Across
  participants every participant with a video track sets the future's result, so the
  scan succeeds when exactly one participant has a video track, leaves the future
  pending when none has, and raises when two or more have.
\<close>

lemma scan_publications_first_video:
  "scan_publications fut pubs =
     (case first_video pubs of None \<Rightarrow> Inr fut | Some t \<Rightarrow> set_result fut t)"
  by (induction pubs) (auto split: option.splits remote_track.splits)

lemma video_tracks_Nil: "video_tracks [] = []"
  by (simp add: video_tracks_def map_filter_simps)

lemma video_tracks_Cons:
  "video_tracks (p # ps) =
     (case first_video (map snd (track_publications p)) of
        None \<Rightarrow> video_tracks ps
      | Some t \<Rightarrow> t # video_tracks ps)"
  by (simp add: video_tracks_def map_filter_simps split: option.splits)

lemma scan_participants_done:
  "scan_participants (Done t) ps =
     (if video_tracks ps = [] then Inr (Done t) else Inl InvalidStateError)"
  by (induction ps)
     (auto simp: video_tracks_Nil video_tracks_Cons scan_publications_first_video set_result_def
           split: option.splits)

lemma scan_participants_pending:
  "scan_participants Pending ps =
     (case video_tracks ps of
        [] \<Rightarrow> Inr Pending
      | [t] \<Rightarrow> Inr (Done t)
      | t # t' # rest \<Rightarrow> Inl InvalidStateError)"
  by (induction ps)
     (auto simp: video_tracks_Nil video_tracks_Cons scan_publications_first_video set_result_def
                 scan_participants_done
           split: option.splits list.splits)

lemma get_video_track_cases:
  "get_video_track r =
     (case video_tracks (map snd (remote_participants r)) of
        [] \<Rightarrow> Suspended
      | [t] \<Rightarrow> Returns t
      | t # t' # rest \<Rightarrow> Raises InvalidStateError)"
  by (simp add: get_video_track_def scan_participants_pending split: list.splits)

text \<open>
  Once the loop is suspended on a pending future, no event resumes it and no frame
  reaches \<^verbatim>\<open>latest_image\<close>.
\<close>

lemma media_step_suspended:
  "media s = AwaitingTrack \<Longrightarrow>
   media (media_step s ev) = AwaitingTrack \<and> latest_image (media_step s ev) = latest_image s"
  by (cases ev) simp_all

lemma media_run_suspended:
  "media s = AwaitingTrack \<Longrightarrow>
   media (media_run s evs) = AwaitingTrack \<and> latest_image (media_run s evs) = latest_image s"
  unfolding media_run_def
proof (induction evs arbitrary: s)
  case Nil
  then show ?case by simp
next
  case (Cons ev evs)
  from Cons.prems have "media (media_step s ev) = AwaitingTrack"
      and "latest_image (media_step s ev) = latest_image s"
    using media_step_suspended by blast+
  with Cons.IH [of "media_step s ev"] show ?case by simp
qed

text \<open>
  With a camera track published before the loop starts, the loop takes that track and
  stores each frame of its stream.
\<close>

lemma media_loop_with_track_present:
  "media (media_run
       (entrypoint_init \<lparr>connection_state = CONN_CONNECTED, remote_participants =
          [(''alice'', \<lparr>track_publications =
              [(''TR_mic'', \<lparr>track = Some (RemoteAudioTrack ''TR_mic'')\<rparr>),
               (''TR_cam'', \<lparr>track = Some (RemoteVideoTrack ''TR_cam'')\<rparr>)]\<rparr>)]\<rparr>)
       [GreetingDone, FrameEvent (VideoFrame 1), FrameEvent (VideoFrame 2)])
     = AwaitingFrame (RemoteVideoTrack ''TR_cam'')
   \<and> latest_image (media_run
       (entrypoint_init \<lparr>connection_state = CONN_CONNECTED, remote_participants =
          [(''alice'', \<lparr>track_publications =
              [(''TR_mic'', \<lparr>track = Some (RemoteAudioTrack ''TR_mic'')\<rparr>),
               (''TR_cam'', \<lparr>track = Some (RemoteVideoTrack ''TR_cam'')\<rparr>)]\<rparr>)]\<rparr>)
       [GreetingDone, FrameEvent (VideoFrame 1), FrameEvent (VideoFrame 2)])
     = Some (VideoFrame 2)"
  by (simp add: media_run_def entrypoint_init_def media_loop_head_def get_video_track_def
                set_result_def)

text \<open>
  C5 (the code at the failing input). The room is connected and has no remote video
  track when \<^verbatim>\<open>entrypoint\<close> reaches the loop: \<^verbatim>\<open>get_video_track\<close> awaits a future that
  nothing will resolve. A participant who publishes a camera track afterwards does not
  wake the loop; it stays suspended and \<^verbatim>\<open>latest_image\<close> stays \<^verbatim>\<open>None\<close>.
\<close>

theorem media_loop_stays_suspended:
  "media (media_run
       (entrypoint_init \<lparr>connection_state = CONN_CONNECTED, remote_participants = []\<rparr>)
       [GreetingDone]) = AwaitingTrack
   \<and> media (media_run
       (entrypoint_init \<lparr>connection_state = CONN_CONNECTED, remote_participants = []\<rparr>)
       [GreetingDone,
        RoomChanged \<lparr>connection_state = CONN_CONNECTED, remote_participants =
          [(''alice'', \<lparr>track_publications =
              [(''TR_cam'', \<lparr>track = Some (RemoteVideoTrack ''TR_cam'')\<rparr>)]\<rparr>)]\<rparr>,
        FrameEvent (VideoFrame 1), StreamEnded]) = AwaitingTrack
   \<and> latest_image (media_run
       (entrypoint_init \<lparr>connection_state = CONN_CONNECTED, remote_participants = []\<rparr>)
       [GreetingDone,
        RoomChanged \<lparr>connection_state = CONN_CONNECTED, remote_participants =
          [(''alice'', \<lparr>track_publications =
              [(''TR_cam'', \<lparr>track = Some (RemoteVideoTrack ''TR_cam'')\<rparr>)]\<rparr>)]\<rparr>,
        FrameEvent (VideoFrame 1), StreamEnded]) = None"
  by (simp add: media_run_def entrypoint_init_def media_loop_head_def get_video_track_def)

text \<open>
  C6 (the code at the failing input). Two remote participants each publish a video
  track: the scan sets the future's result for the first, goes on to the second
  participant and sets it again, and \<^verbatim>\<open>get_video_track\<close> raises \<^verbatim>\<open>InvalidStateError\<close>
  instead of returning the first track.
\<close>

theorem get_video_track_two_publishers:
  "get_video_track \<lparr>connection_state = CONN_CONNECTED, remote_participants =
      [(''alice'', \<lparr>track_publications =
          [(''TR_cam1'', \<lparr>track = Some (RemoteVideoTrack ''TR_cam1'')\<rparr>)]\<rparr>),
       (''bob'', \<lparr>track_publications =
          [(''TR_cam2'', \<lparr>track = Some (RemoteVideoTrack ''TR_cam2'')\<rparr>)]\<rparr>)]\<rparr>
     = Raises InvalidStateError"
  by (simp add: get_video_track_def set_result_def)

section \<open>Startup\<close>

text \<open>
  C7 (as the code has it). The token built at startup carries the identity
  \<^verbatim>\<open>python-bot\<close>, the display name \<^verbatim>\<open>Python Bot\<close> and a grant with \<^verbatim>\<open>room_join\<close> true for
  the room \<^verbatim>\<open>my-room\<close>; with both credentials set, signing this token is the first thing
  the block does, whatever the agent library does with it afterwards.
\<close>

theorem startup_token_claims:
  "identity (startup_token k sec) = ''python-bot''
   \<and> name (startup_token k sec) = ''Python Bot''
   \<and> grants (startup_token k sec) = Some \<lparr>room_join = True, room = ''my-room''\<rparr>
   \<and> (env ''LIVEKIT_API_KEY'' = Some k \<and> k \<noteq> []
        \<and> env ''LIVEKIT_API_SECRET'' = Some sec \<and> sec \<noteq> [] \<longrightarrow>
        (\<exists>later. fst (main to_jwt worker_options run_app env) =
                    TokenSigned (startup_token k sec) # later))"
proof -
  have built: "identity (startup_token k sec) = ''python-bot''
      \<and> name (startup_token k sec) = ''Python Bot''
      \<and> grants (startup_token k sec) = Some \<lparr>room_join = True, room = ''my-room''\<rparr>"
    by (simp add: startup_token_def with_grants_def with_name_def with_identity_def AccessToken_def)
  have signed: "env ''LIVEKIT_API_KEY'' = Some k \<and> k \<noteq> []
        \<and> env ''LIVEKIT_API_SECRET'' = Some sec \<and> sec \<noteq> [] \<longrightarrow>
        (\<exists>later. fst (main to_jwt worker_options run_app env) =
                    TokenSigned (startup_token k sec) # later)"
    by (simp add: main_def truthy_str_def Let_def split: sum.splits)
  from built signed show ?thesis by blast
qed

text \<open>
  With a key and a secret in the environment and a library that refuses the options, the
  block has signed that token and done nothing else.
\<close>

theorem startup_token_claims_witness:
  "fst (main (\<lambda>tok. identity tok @ ''@'' @ api_key tok)
        (\<lambda>token. Inl (TypeError ''token'') :: py_error + string) (\<lambda>opts. None)
        [''LIVEKIT_API_KEY'' \<mapsto> ''key'', ''LIVEKIT_API_SECRET'' \<mapsto> ''secret'']) =
     [TokenSigned (startup_token ''key'' ''secret'')]
   \<and> identity (startup_token ''key'' ''secret'') = ''python-bot''"
  using startup_token_claims
          [where k = "''key''" and sec = "''secret''"
             and env = "[''LIVEKIT_API_KEY'' \<mapsto> ''key'', ''LIVEKIT_API_SECRET'' \<mapsto> ''secret'']"
             and to_jwt = "\<lambda>tok. identity tok @ ''@'' @ api_key tok"
             and worker_options = "\<lambda>token. Inl (TypeError ''token'') :: py_error + string"
             and run_app = "\<lambda>opts. None"]
  by (simp add: main_def truthy_str_def)

text \<open>C7 as stated names the identity \<^verbatim>\<open>bot\<close>. The token's identity is another string.\<close>

theorem startup_token_identity_counterexample:
  "identity (startup_token ''key'' ''secret'') = ''python-bot''
   \<and> identity (startup_token ''key'' ''secret'') \<noteq> ''bot''"
  by (simp add: startup_token_def with_grants_def with_name_def with_identity_def AccessToken_def)

text \<open>
  C8. When the key or the secret is missing from the environment or empty, the block
  ends with the \<^verbatim>\<open>ValueError\<close> of the credentials check and has done nothing before it: no
  token is built or signed, and \<^verbatim>\<open>cli.run_app\<close>, where the worker connects, is not reached.
  When both are present and non-empty, that error is not raised: the block signs the
  token and goes on into the agent library, and it ends with an error only when a call
  of the library raises one, after the token is signed.
\<close>

theorem main_requires_credentials:
  "(env ''LIVEKIT_API_KEY'' = None \<or> env ''LIVEKIT_API_KEY'' = Some []
      \<or> env ''LIVEKIT_API_SECRET'' = None \<or> env ''LIVEKIT_API_SECRET'' = Some [] \<longrightarrow>
      main to_jwt worker_options run_app env = ([], Some missing_credentials))
   \<and> (env ''LIVEKIT_API_KEY'' = Some k \<and> k \<noteq> []
        \<and> env ''LIVEKIT_API_SECRET'' = Some sec \<and> sec \<noteq> [] \<longrightarrow>
      main to_jwt worker_options run_app env =
        (case worker_options (to_jwt (startup_token k sec)) of
           Inl e \<Rightarrow> ([TokenSigned (startup_token k sec)], Some e)
         | Inr opts \<Rightarrow> ([TokenSigned (startup_token k sec), RunApp opts], run_app opts)))"
proof -
  have refused: "env ''LIVEKIT_API_KEY'' = None \<or> env ''LIVEKIT_API_KEY'' = Some []
      \<or> env ''LIVEKIT_API_SECRET'' = None \<or> env ''LIVEKIT_API_SECRET'' = Some [] \<longrightarrow>
      main to_jwt worker_options run_app env = ([], Some missing_credentials)"
    by (auto simp: main_def truthy_str_def Let_def split: option.splits)
  have passed: "env ''LIVEKIT_API_KEY'' = Some k \<and> k \<noteq> []
        \<and> env ''LIVEKIT_API_SECRET'' = Some sec \<and> sec \<noteq> [] \<longrightarrow>
      main to_jwt worker_options run_app env =
        (case worker_options (to_jwt (startup_token k sec)) of
           Inl e \<Rightarrow> ([TokenSigned (startup_token k sec)], Some e)
         | Inr opts \<Rightarrow> ([TokenSigned (startup_token k sec), RunApp opts], run_app opts))"
    by (simp add: main_def truthy_str_def Let_def)
  from refused passed show ?thesis by blast
qed

text \<open>
  A missing secret and an empty secret: the \<^verbatim>\<open>ValueError\<close>, nothing done. Both credentials
  set: with a library that refuses the options the block ends with the library's
  \<^verbatim>\<open>TypeError\<close> after signing the token; with a library that accepts them and runs, it
  ends without an error.
\<close>

theorem main_requires_credentials_witness:
  "main (\<lambda>tok. identity tok @ ''@'' @ api_key tok) (\<lambda>token. Inr token) (\<lambda>opts. None)
        [''LIVEKIT_API_KEY'' \<mapsto> ''key'']
     = ([], Some missing_credentials)
   \<and> main (\<lambda>tok. identity tok @ ''@'' @ api_key tok) (\<lambda>token. Inr token) (\<lambda>opts. None)
        [''LIVEKIT_API_KEY'' \<mapsto> ''key'', ''LIVEKIT_API_SECRET'' \<mapsto> []]
     = ([], Some missing_credentials)
   \<and> main (\<lambda>tok. identity tok @ ''@'' @ api_key tok)
        (\<lambda>token. Inl (TypeError ''token'') :: py_error + string) (\<lambda>opts. None)
        [''LIVEKIT_API_KEY'' \<mapsto> ''key'', ''LIVEKIT_API_SECRET'' \<mapsto> ''secret'']
     = ([TokenSigned (startup_token ''key'' ''secret'')], Some (TypeError ''token''))
   \<and> main (\<lambda>tok. identity tok @ ''@'' @ api_key tok) (\<lambda>token. Inr token) (\<lambda>opts. None)
        [''LIVEKIT_API_KEY'' \<mapsto> ''key'', ''LIVEKIT_API_SECRET'' \<mapsto> ''secret'']
     = ([TokenSigned (startup_token ''key'' ''secret''),
         RunApp (identity (startup_token ''key'' ''secret'') @ ''@'' @
                 api_key (startup_token ''key'' ''secret''))], None)"
  using main_requires_credentials
          [where env = "[''LIVEKIT_API_KEY'' \<mapsto> ''key'']"
             and to_jwt = "\<lambda>tok. identity tok @ ''@'' @ api_key tok"
             and worker_options = "\<lambda>token. Inr token :: py_error + string"
             and run_app = "\<lambda>opts. None"]
        main_requires_credentials
          [where env = "[''LIVEKIT_API_KEY'' \<mapsto> ''key'', ''LIVEKIT_API_SECRET'' \<mapsto> []]"
             and to_jwt = "\<lambda>tok. identity tok @ ''@'' @ api_key tok"
             and worker_options = "\<lambda>token. Inr token :: py_error + string"
             and run_app = "\<lambda>opts. None"]
        main_requires_credentials
          [where k = "''key''" and sec = "''secret''"
             and env = "[''LIVEKIT_API_KEY'' \<mapsto> ''key'', ''LIVEKIT_API_SECRET'' \<mapsto> ''secret'']"
             and to_jwt = "\<lambda>tok. identity tok @ ''@'' @ api_key tok"
             and worker_options = "\<lambda>token. Inl (TypeError ''token'') :: py_error + string"
             and run_app = "\<lambda>opts. None"]
        main_requires_credentials
          [where k = "''key''" and sec = "''secret''"
             and env = "[''LIVEKIT_API_KEY'' \<mapsto> ''key'', ''LIVEKIT_API_SECRET'' \<mapsto> ''secret'']"
             and to_jwt = "\<lambda>tok. identity tok @ ''@'' @ api_key tok"
             and worker_options = "\<lambda>token. Inr token :: py_error + string"
             and run_app = "\<lambda>opts. None"]
  by simp

end
